theory Spec2Isabelle
  imports Main
begin

section \<open>Task controllers and the notification helper\<close>

text \<open>
  The development follows \<^verbatim>\<open>src/emails/utils/task-notify.ts\<close> (the helper
  \<^verbatim>\<open>notifyUser\<close>) and the task controllers that come with it
  (\<^verbatim>\<open>createTaskController\<close>, \<^verbatim>\<open>updateTaskController\<close>,
  \<^verbatim>\<open>getAllTasksController\<close>, \<^verbatim>\<open>getTaskByIdController\<close>,
  \<^verbatim>\<open>deleteTaskController\<close>).

  The controllers are glue over collaborators that live in other modules: the zod
  schemas, the member service, the role guard, the task services, the user model and the
  e-mail provider. Each collaborator is a field of an environment record \<open>env\<close>; the
  controllers are functions of that environment. An asynchronous function is a state
  transformer over a \<open>world\<close> (the persistent store and the sequence of calls made
  to the outside), returning either the thrown error (\<open>Inl\<close>) or the value
  (\<open>Inr\<close>); the state after a throw keeps every effect that happened before it.
\<close>

subsection \<open>Data\<close>

text \<open>JSON values: request bodies, the provider's reply, the parts of a listing result.\<close>

datatype json =
    JNull
  | JBool bool
  | JNum int
  | JStr string
  | JArr "json list"
  | JObj "(string \<times> json) list"

text \<open>
  The error taxonomy of the system: validation, authorization, not-found and provider
  errors, and the \<^verbatim>\<open>TypeError\<close> that JavaScript throws when a value that is
  not a function is called. The string is the error's message.
\<close>

datatype error =
    ValidationError string
  | AuthorizationError string
  | NotFoundError string
  | ProviderError string
  | TypeError string

text \<open>The permissions the controllers ask for (\<^verbatim>\<open>Permissions\<close> of the role enum).\<close>

datatype permission = CREATE_TASK | EDIT_TASK | VIEW_ONLY | DELETE_TASK

type_synonym role = string

text \<open>
  A user document, as far as the controllers read it (\<^verbatim>\<open>assignedUser.name\<close>,
  \<^verbatim>\<open>assignedUser.email\<close>).
\<close>

record user =
  user_id :: string
  name :: string
  email :: string

text \<open>
  A task document. The controllers read \<^verbatim>\<open>task.title\<close> and
  \<^verbatim>\<open>task.description\<close>; the other fields are those of the data model.
\<close>

record task =
  taskId :: string
  title :: string
  description :: string
  taskStatus :: string
  taskPriority :: string
  taskAssignedTo :: "string option"
  taskWorkspace :: string
  taskProject :: string

text \<open>
  The output of \<^verbatim>\<open>createTaskSchema.parse\<close>. The controller reads
  \<^verbatim>\<open>body.assignedTo\<close>, which may be missing.
\<close>

record create_body =
  bodyTitle :: string
  bodyDescription :: "string option"
  bodyAssignedTo :: "string option"

text \<open>\<^verbatim>\<open>interface EmailParams\<close>.\<close>

record EmailParams =
  userEmail :: string
  subject :: string
  message :: string

text \<open>The object handed to \<^verbatim>\<open>resend.emails.send\<close>: from, to, subject, html.\<close>

record send_options =
  sendFrom :: string
  sendTo :: string
  sendSubject :: string
  sendHtml :: string

text \<open>
  A JavaScript number as \<^verbatim>\<open>parseInt\<close> returns it: \<open>NaN\<close> or an integer.
  (The integer is kept exact; JavaScript rounds magnitudes above \<open>2^53\<close> to a double.
  Neither rounding nor the sign of zero changes whether the number is falsy.)
\<close>

datatype number = NaN | Num int

text \<open>
  A value of \<^verbatim>\<open>req.query\<close>. The code casts each to \<^verbatim>\<open>string\<close>, but the
  query parser gives a string for a parameter that occurs once, an array for a repeated
  parameter (\<^verbatim>\<open>?status=a&status=b\<close>) and an object for a bracketed one
  (\<^verbatim>\<open>?status[x]=a\<close>); an absent parameter is undefined (\<open>None\<close>).
\<close>

datatype qvalue =
    QStr string
  | QArr "qvalue list"
  | QObj "(string \<times> qvalue) list"

text \<open>
  The \<^verbatim>\<open>filters\<close> and \<^verbatim>\<open>pagination\<close> objects of the listing controller.
  \<^verbatim>\<open>projectId\<close>, \<^verbatim>\<open>keyword\<close> and \<^verbatim>\<open>dueDate\<close> are the query values
  as they came.
\<close>

record filters =
  projectId :: "qvalue option"
  status :: "string list option"
  priority :: "string list option"
  assignedTo :: "string list option"
  keyword :: "qvalue option"
  dueDate :: "qvalue option"

record pagination =
  pageSize :: number
  pageNumber :: number

text \<open>
  A value in a response body: a string, a task document, or other JSON. A response body is
  an object, kept as the list of its keys and values in insertion order.
\<close>

datatype bvalue = VStr string | VTask task | VJson json

type_synonym object = "(string \<times> bvalue) list"

text \<open>What \<^verbatim>\<open>res.status(code).json(obj)\<close> sends.\<close>

record response =
  statusCode :: nat
  jsonBody :: object

text \<open>
  The request, as far as the controllers read it: the \<^verbatim>\<open>userid\<close> header
  (cast to a string by the code), the body, the path parameters (\<open>None\<close> when
  undefined) and the query parameters.
\<close>

record params =
  p_id :: "string option"
  p_projectId :: "string option"
  p_workspaceId :: "string option"

record query =
  q_projectId :: "qvalue option"
  q_status :: "qvalue option"
  q_priority :: "qvalue option"
  q_assignedTo :: "qvalue option"
  q_keyword :: "qvalue option"
  q_dueDate :: "qvalue option"
  q_pageSize :: "qvalue option"
  q_pageNumber :: "qvalue option"

record request =
  h_userid :: string
  body :: json
  params :: params
  query :: query

subsection \<open>The world and the environment\<close>

text \<open>
  Every call that leaves the module is recorded, in order, with its arguments: the member
  service, the task services, the user model, the e-mail provider and the console.
\<close>

datatype event =
    Call_getMemberRoleInWorkspace string string
  | Call_createTaskService string string string create_body
  | Call_updateTaskService string string string json
  | Call_getAllTasksService string filters pagination
  | Call_getTaskByIdService string string string
  | Call_deleteTaskService string string
  | Call_findById "string option"
  | Call_emails_send send_options
  | Console_log string json
  | Console_error string error

record 'db world =
  db :: 'db
  trace :: "event list"

text \<open>
  The collaborators. The schemas are synchronous and throw on invalid input. The member
  service, the user model and the two reading task services read the store; the creating,
  updating and deleting services may change it, also when they throw. The provider call
  either resolves with a reply or rejects. \<open>FRONTEND_ORIGIN\<close> is the environment
  variable of that name, \<open>None\<close> when unset. \<open>rolePermissions\<close> is the table that
  gives each role its permissions.
\<close>

record 'db env =
  createTaskSchema_parse :: "json \<Rightarrow> error + create_body"
  updateTaskSchema_parse :: "json \<Rightarrow> error + json"
  taskIdSchema_parse :: "string option \<Rightarrow> error + string"
  projectIdSchema_parse :: "string option \<Rightarrow> error + string"
  workspaceIdSchema_parse :: "string option \<Rightarrow> error + string"
  getMemberRoleInWorkspace :: "'db \<Rightarrow> string \<Rightarrow> string \<Rightarrow> error + role"
  rolePermissions :: "role \<Rightarrow> permission list"
  UserModel_findById :: "'db \<Rightarrow> string option \<Rightarrow> error + user option"
  createTaskService :: "'db \<Rightarrow> string \<Rightarrow> string \<Rightarrow> string \<Rightarrow> create_body \<Rightarrow> (error + task) \<times> 'db"
  updateTaskService :: "'db \<Rightarrow> string \<Rightarrow> string \<Rightarrow> string \<Rightarrow> json \<Rightarrow> (error + task) \<times> 'db"
  getAllTasksService :: "'db \<Rightarrow> string \<Rightarrow> filters \<Rightarrow> pagination \<Rightarrow> error + object"
  getTaskByIdService :: "'db \<Rightarrow> string \<Rightarrow> string \<Rightarrow> string \<Rightarrow> error + task"
  deleteTaskService :: "'db \<Rightarrow> string \<Rightarrow> string \<Rightarrow> (error + unit) \<times> 'db"
  resend_emails_send :: "send_options \<Rightarrow> error + json"
  FRONTEND_ORIGIN :: "string option"

subsection \<open>Asynchronous functions\<close>

text \<open>
  The defining equations of the asynchronous combinators and of the calls to the
  collaborators, collected to run a controller by rewriting.
\<close>

named_theorems run_defs


type_synonym ('db, 'a) async = "'db world \<Rightarrow> (error + 'a) \<times> 'db world"

text \<open>\<^verbatim>\<open>const x = await m; k(x)\<close>: a rejection of \<open>m\<close> skips \<open>k\<close>.\<close>

definition await :: "('db, 'a) async \<Rightarrow> ('a \<Rightarrow> ('db, 'b) async) \<Rightarrow> ('db, 'b) async" where
  [run_defs]: "await m k = (\<lambda>w. case m w of (Inl e, w') \<Rightarrow> (Inl e, w') | (Inr x, w') \<Rightarrow> k x w')"

text \<open>\<^verbatim>\<open>return x\<close>.\<close>

definition resolve :: "'a \<Rightarrow> ('db, 'a) async" where
  [run_defs]: "resolve x = (\<lambda>w. (Inr x, w))"

text \<open>A synchronous call that returns or throws and has no effect.\<close>

definition sync :: "error + 'a \<Rightarrow> ('db, 'a) async" where
  [run_defs]: "sync r = (\<lambda>w. (r, w))"

text \<open>\<^verbatim>\<open>try { m } catch (error) { h(error) }\<close>.\<close>

definition try_catch :: "('db, 'a) async \<Rightarrow> (error \<Rightarrow> ('db, 'a) async) \<Rightarrow> ('db, 'a) async" where
  [run_defs]: "try_catch m h = (\<lambda>w. case m w of (Inl e, w') \<Rightarrow> h e w' | (Inr x, w') \<Rightarrow> (Inr x, w'))"

definition record_event :: "event \<Rightarrow> 'db world \<Rightarrow> 'db world" where
  [run_defs]: "record_event e w = w\<lparr>trace := trace w @ [e]\<rparr>"

text \<open>The console never throws.\<close>

definition console_log :: "string \<Rightarrow> json \<Rightarrow> ('db, unit) async" where
  [run_defs]: "console_log s v = (\<lambda>w. (Inr (), record_event (Console_log s v) w))"

definition console_error :: "string \<Rightarrow> error \<Rightarrow> ('db, unit) async" where
  [run_defs]: "console_error s e = (\<lambda>w. (Inr (), record_event (Console_error s e) w))"

text \<open>The calls to the collaborators: each records itself, then gives the collaborator's result.\<close>

definition call_emails_send :: "'db env \<Rightarrow> send_options \<Rightarrow> ('db, json) async" where
  [run_defs]: "call_emails_send E opts = (\<lambda>w. (resend_emails_send E opts, record_event (Call_emails_send opts) w))"

definition call_getMemberRoleInWorkspace :: "'db env \<Rightarrow> string \<Rightarrow> string \<Rightarrow> ('db, role) async" where
  [run_defs]: "call_getMemberRoleInWorkspace E uid ws =
     (\<lambda>w. (getMemberRoleInWorkspace E (db w) uid ws,
            record_event (Call_getMemberRoleInWorkspace uid ws) w))"

definition call_findById :: "'db env \<Rightarrow> string option \<Rightarrow> ('db, user option) async" where
  [run_defs]: "call_findById E i = (\<lambda>w. (UserModel_findById E (db w) i, record_event (Call_findById i) w))"

definition call_createTaskService ::
  "'db env \<Rightarrow> string \<Rightarrow> string \<Rightarrow> string \<Rightarrow> create_body \<Rightarrow> ('db, task) async" where
  [run_defs]: "call_createTaskService E ws pid uid b =
     (\<lambda>w. case createTaskService E (db w) ws pid uid b of
             (r, d) \<Rightarrow> (r, record_event (Call_createTaskService ws pid uid b) (w\<lparr>db := d\<rparr>)))"

definition call_updateTaskService ::
  "'db env \<Rightarrow> string \<Rightarrow> string \<Rightarrow> string \<Rightarrow> json \<Rightarrow> ('db, task) async" where
  [run_defs]: "call_updateTaskService E ws pid tid b =
     (\<lambda>w. case updateTaskService E (db w) ws pid tid b of
             (r, d) \<Rightarrow> (r, record_event (Call_updateTaskService ws pid tid b) (w\<lparr>db := d\<rparr>)))"


definition call_getTaskByIdService ::
  "'db env \<Rightarrow> string \<Rightarrow> string \<Rightarrow> string \<Rightarrow> ('db, task) async" where
  [run_defs]: "call_getTaskByIdService E ws pid tid =
     (\<lambda>w. (getTaskByIdService E (db w) ws pid tid,
            record_event (Call_getTaskByIdService ws pid tid) w))"

definition call_deleteTaskService :: "'db env \<Rightarrow> string \<Rightarrow> string \<Rightarrow> ('db, unit) async" where
  [run_defs]: "call_deleteTaskService E ws tid =
     (\<lambda>w. case deleteTaskService E (db w) ws tid of
             (r, d) \<Rightarrow> (r, record_event (Call_deleteTaskService ws tid) (w\<lparr>db := d\<rparr>)))"

subsection \<open>notifyUser\<close>

definition notifyUser :: "'db env \<Rightarrow> EmailParams \<Rightarrow> ('db, unit) async" where
  "notifyUser E p =
     try_catch
       (await (call_emails_send E
                 \<lparr>sendFrom = ''no-reply@techriserwanda.org'',
                  sendTo = userEmail p,
                  sendSubject = subject p,
                  sendHtml = message p\<rparr>)
          (\<lambda>response. console_log ''Email sent successfully:'' response))
       (\<lambda>error. console_error ''Error sending email:'' error)"

subsection \<open>Helpers of the controllers\<close>

text \<open>
  Modelled from the spec: \<^verbatim>\<open>HTTPSTATUS\<close> of the HTTP configuration module, which
  is not among the sources; the spec gives 200 OK and 400 Bad Request.
\<close>

definition HTTPSTATUS_OK :: nat where
  "HTTPSTATUS_OK = 200"

definition HTTPSTATUS_BAD_REQUEST :: nat where
  "HTTPSTATUS_BAD_REQUEST = 400"

text \<open>
  Modelled from the spec: \<^verbatim>\<open>roleGuard\<close> of the utilities module, which is not among
  the sources. The spec: the authorization layer throws if the role lacks a required
  permission. The role's permissions come from the table \<open>rolePermissions\<close>.
\<close>

definition roleGuard :: "'db env \<Rightarrow> role \<Rightarrow> permission list \<Rightarrow> error + unit" where
  "roleGuard E r required =
     (if list_all (\<lambda>p. p \<in> set (rolePermissions E r)) required then Inr ()
      else Inl (AuthorizationError ''forbidden''))"

text \<open>A value of type \<^verbatim>\<open>string | undefined\<close> inside a template literal.\<close>

definition template_string :: "string option \<Rightarrow> string" where
  "template_string x = (case x of None \<Rightarrow> ''undefined'' | Some s \<Rightarrow> s)"













text \<open>The HTML of the notification (the template literal of the create controller).\<close>

definition notification_html ::
  "string \<Rightarrow> string option \<Rightarrow> string \<Rightarrow> string \<Rightarrow> string \<Rightarrow> string \<Rightarrow> string" where
  "notification_html userName origin ws pid taskTitle taskDescription =
     [CHR 0x0A] @ ''      <p>Hello '' @ userName @ '',</p>'' @ [CHR 0x0A]
     @ ''      <p>You have been assigned a new task. <strong><a href=https://''
     @ template_string origin @ ''/workspace/'' @ ws @ ''/project/'' @ pid
     @ ''>View Project</a></strong>.</p>'' @ [CHR 0x0A]
     @ ''      <p><strong>Task Details:</strong></p>'' @ [CHR 0x0A]
     @ ''      <p><strong>Title:</strong> '' @ taskTitle @ ''</p>'' @ [CHR 0x0A]
     @ ''      <p><strong>Description:</strong> '' @ taskDescription @ ''</p>'' @ [CHR 0x0A]
     @ ''      <p>Please check the task board for further details.</p>'' @ [CHR 0x0A]
     @ ''      <p>Best regards,<br/>TechRise Bot.</p>'' @ [CHR 0x0A]
     @ ''    ''"

subsection \<open>The controllers\<close>

text \<open>
  Each controller is the function wrapped by \<^verbatim>\<open>asyncHandler\<close>: a thrown error
  (\<open>Inl\<close>) goes to the error middleware, a response (\<open>Inr\<close>) is what the controller
  sends.
\<close>

definition createTaskController :: "'db env \<Rightarrow> request \<Rightarrow> ('db, response) async" where
  "createTaskController E req =
     (let userId = h_userid req in
      await (sync (createTaskSchema_parse E (body req))) (\<lambda>b.
      await (sync (projectIdSchema_parse E (p_projectId (params req)))) (\<lambda>projectId.
      await (sync (workspaceIdSchema_parse E (p_workspaceId (params req)))) (\<lambda>workspaceId.
      await (call_getMemberRoleInWorkspace E userId workspaceId) (\<lambda>role.
      await (sync (roleGuard E role [CREATE_TASK])) (\<lambda>_.
      await (call_createTaskService E workspaceId projectId userId b) (\<lambda>task.
      await (call_findById E (bodyAssignedTo b)) (\<lambda>assignedUser.
      case assignedUser of
        None \<Rightarrow>
          resolve \<lparr>statusCode = HTTPSTATUS_BAD_REQUEST,
                   jsonBody = [(''message'', VStr ''Assigned user not found.'')]\<rparr>
      | Some u \<Rightarrow>
          (let assignedEmail = email u;
               subj = ''Task Assigned: '' @ title task;
               msg = notification_html (name u) (FRONTEND_ORIGIN E) workspaceId projectId
                       (title task) (description task)
           in await (try_catch
                       (notifyUser E \<lparr>userEmail = assignedEmail, subject = subj, message = msg\<rparr>)
                       (\<lambda>error. console_error ''Error sending email:'' error)) (\<lambda>_.
              resolve \<lparr>statusCode = HTTPSTATUS_OK,
                       jsonBody = [(''message'', VStr ''Task created successfully and notification sent.''),
                                   (''task'', VTask task)]\<rparr>))))))))))"

definition updateTaskController :: "'db env \<Rightarrow> request \<Rightarrow> ('db, response) async" where
  "updateTaskController E req =
     (let userId = h_userid req in
      await (sync (updateTaskSchema_parse E (body req))) (\<lambda>b.
      await (sync (taskIdSchema_parse E (p_id (params req)))) (\<lambda>taskId.
      await (sync (projectIdSchema_parse E (p_projectId (params req)))) (\<lambda>projectId.
      await (sync (workspaceIdSchema_parse E (p_workspaceId (params req)))) (\<lambda>workspaceId.
      await (call_getMemberRoleInWorkspace E userId workspaceId) (\<lambda>role.
      await (sync (roleGuard E role [EDIT_TASK])) (\<lambda>_.
      await (call_updateTaskService E workspaceId projectId taskId b) (\<lambda>updatedTask.
      resolve \<lparr>statusCode = HTTPSTATUS_OK,
               jsonBody = [(''message'', VStr ''Task updated successfully''),
                           (''task'', VTask updatedTask)]\<rparr>))))))))"




definition getTaskByIdController :: "'db env \<Rightarrow> request \<Rightarrow> ('db, response) async" where
  "getTaskByIdController E req =
     (let userId = h_userid req in
      await (sync (taskIdSchema_parse E (p_id (params req)))) (\<lambda>taskId.
      await (sync (projectIdSchema_parse E (p_projectId (params req)))) (\<lambda>projectId.
      await (sync (workspaceIdSchema_parse E (p_workspaceId (params req)))) (\<lambda>workspaceId.
      await (call_getMemberRoleInWorkspace E userId workspaceId) (\<lambda>role.
      await (sync (roleGuard E role [VIEW_ONLY])) (\<lambda>_.
      await (call_getTaskByIdService E workspaceId projectId taskId) (\<lambda>task.
      resolve \<lparr>statusCode = HTTPSTATUS_OK,
               jsonBody = [(''message'', VStr ''Task fetched successfully''),
                           (''task'', VTask task)]\<rparr>)))))))"

definition deleteTaskController :: "'db env \<Rightarrow> request \<Rightarrow> ('db, response) async" where
  "deleteTaskController E req =
     (let userId = h_userid req in
      await (sync (taskIdSchema_parse E (p_id (params req)))) (\<lambda>taskId.
      await (sync (workspaceIdSchema_parse E (p_workspaceId (params req)))) (\<lambda>workspaceId.
      await (call_getMemberRoleInWorkspace E userId workspaceId) (\<lambda>role.
      await (sync (roleGuard E role [DELETE_TASK])) (\<lambda>_.
      await (call_deleteTaskService E workspaceId taskId) (\<lambda>_.
      resolve \<lparr>statusCode = HTTPSTATUS_OK,
               jsonBody = [(''message'', VStr ''Task deleted successfully'')]\<rparr>))))))"

subsection \<open>Observations on a run\<close>

text \<open>The events a run adds to the trace of the world it starts in.\<close>

definition new_events :: "'db world \<Rightarrow> 'db world \<Rightarrow> event list" where
  "new_events w w' = drop (length (trace w)) (trace w')"

text \<open>A call of one of the task services.\<close>

fun is_task_service_call :: "event \<Rightarrow> bool" where
  "is_task_service_call (Call_createTaskService ws pid uid b) = True"
| "is_task_service_call (Call_updateTaskService ws pid tid b) = True"
| "is_task_service_call (Call_getAllTasksService ws f p) = True"
| "is_task_service_call (Call_getTaskByIdService ws pid tid) = True"
| "is_task_service_call (Call_deleteTaskService ws tid) = True"
| "is_task_service_call e = False"

text \<open>A call of the e-mail provider.\<close>

fun is_emails_send :: "event \<Rightarrow> bool" where
  "is_emails_send (Call_emails_send opts) = True"
| "is_emails_send e = False"

text \<open>
  What \<^verbatim>\<open>notifyUser\<close> does to the outside: the provider call and the console
  lines. Every run of \<^verbatim>\<open>notifyUser\<close> starts with the provider call.
\<close>

fun is_notification :: "event \<Rightarrow> bool" where
  "is_notification (Call_emails_send opts) = True"
| "is_notification (Console_log s v) = True"
| "is_notification (Console_error s e) = True"
| "is_notification e = False"

text \<open>An outcome that is an authorization failure.\<close>

fun is_authorization_failure :: "error + 'a \<Rightarrow> bool" where
  "is_authorization_failure (Inl (AuthorizationError m)) = True"
| "is_authorization_failure r = False"

text \<open>
  The caller's role in the workspace of the request lacks the permission \<open>p\<close>: the
  workspace id of the request is valid, the caller has a role there, and the table gives
  that role no \<open>p\<close>.
\<close>

definition role_lacks :: "'db env \<Rightarrow> request \<Rightarrow> 'db world \<Rightarrow> permission \<Rightarrow> bool" where
  "role_lacks E req w p =
     (case workspaceIdSchema_parse E (p_workspaceId (params req)) of
        Inl e \<Rightarrow> False
      | Inr ws \<Rightarrow>
          (case getMemberRoleInWorkspace E (db w) (h_userid req) ws of
             Inl e \<Rightarrow> False
           | Inr r \<Rightarrow> p \<notin> set (rolePermissions E r)))"

text \<open>The caller has a role in the workspace of the request, and the role holds \<open>p\<close>.\<close>

definition role_holds :: "'db env \<Rightarrow> request \<Rightarrow> 'db world \<Rightarrow> permission \<Rightarrow> bool" where
  "role_holds E req w p =
     (case workspaceIdSchema_parse E (p_workspaceId (params req)) of
        Inl e \<Rightarrow> False
      | Inr ws \<Rightarrow>
          (case getMemberRoleInWorkspace E (db w) (h_userid req) ws of
             Inl e \<Rightarrow> False
           | Inr r \<Rightarrow> p \<in> set (rolePermissions E r)))"



text \<open>The request passes the validation the controller runs (its schemas accept it).\<close>

definition create_valid :: "'db env \<Rightarrow> request \<Rightarrow> bool" where
  "create_valid E req =
     (\<not> isl (createTaskSchema_parse E (body req))
      \<and> \<not> isl (projectIdSchema_parse E (p_projectId (params req)))
      \<and> \<not> isl (workspaceIdSchema_parse E (p_workspaceId (params req))))"

definition update_valid :: "'db env \<Rightarrow> request \<Rightarrow> bool" where
  "update_valid E req =
     (\<not> isl (updateTaskSchema_parse E (body req))
      \<and> \<not> isl (taskIdSchema_parse E (p_id (params req)))
      \<and> \<not> isl (projectIdSchema_parse E (p_projectId (params req)))
      \<and> \<not> isl (workspaceIdSchema_parse E (p_workspaceId (params req))))"

definition delete_valid :: "'db env \<Rightarrow> request \<Rightarrow> bool" where
  "delete_valid E req =
     (\<not> isl (taskIdSchema_parse E (p_id (params req)))
      \<and> \<not> isl (workspaceIdSchema_parse E (p_workspaceId (params req))))"

text \<open>
  A run from \<open>w\<close> to \<open>w'\<close> that invoked no task service: the store is the same and
  the trace grew by events that are not task-service calls.
\<close>

definition no_task_service :: "'db world \<Rightarrow> 'db world \<Rightarrow> bool" where
  "no_task_service w w' =
     (db w' = db w \<and> take (length (trace w)) (trace w') = trace w
      \<and> \<not> list_ex is_task_service_call (new_events w w'))"


text \<open>
  A run from \<open>w\<close> to \<open>w'\<close> that did nothing but, at most, look the caller's role
  up: the world is as it was, or it is as it was but for the one call of the member
  service recorded in the trace. No other collaborator was called, nothing was written to
  the console, and the store is the same.
\<close>

definition only_role_lookup :: "'db env \<Rightarrow> request \<Rightarrow> 'db world \<Rightarrow> 'db world \<Rightarrow> bool" where
  "only_role_lookup E req w w' =
     (w' = w \<or>
      (case workspaceIdSchema_parse E (p_workspaceId (params req)) of
         Inl e \<Rightarrow> False
       | Inr ws \<Rightarrow> w' = w\<lparr>trace := trace w @ [Call_getMemberRoleInWorkspace (h_userid req) ws]\<rparr>))"

subsection \<open>An instance of the environment\<close>

text \<open>The defining equations of the instance are collected to evaluate it.\<close>

named_theorems example_defs


text \<open>
  A small concrete system to run the controllers on: the store is the list of tasks, the
  ids are accepted when they are non-empty strings, a create body is an object with a
  non-empty title, two members of one workspace, one user to assign tasks to.
\<close>

type_synonym example_store = "task list"

definition example_id_parse :: "string option \<Rightarrow> error + string" where
  [example_defs]: "example_id_parse x =
     (case x of None \<Rightarrow> Inl (ValidationError ''Required'')
      | Some s \<Rightarrow> if s = [] then Inl (ValidationError ''Required'') else Inr s)"

definition example_field :: "(string \<times> json) list \<Rightarrow> string \<Rightarrow> string option" where
  [example_defs]: "example_field kvs k = (case map_of kvs k of Some (JStr s) \<Rightarrow> Some s | _ \<Rightarrow> None)"

definition example_create_parse :: "json \<Rightarrow> error + create_body" where
  [example_defs]: "example_create_parse j =
     (case j of
        JObj kvs \<Rightarrow>
          (case example_field kvs ''title'' of
             None \<Rightarrow> Inl (ValidationError ''title: Required'')
           | Some t \<Rightarrow>
               if t = [] then Inl (ValidationError ''title: Required'')
               else Inr \<lparr>bodyTitle = t,
                         bodyDescription = example_field kvs ''description'',
                         bodyAssignedTo = example_field kvs ''assignedTo''\<rparr>)
      | _ \<Rightarrow> Inl (ValidationError ''Expected object''))"

definition example_update_parse :: "json \<Rightarrow> error + json" where
  [example_defs]: "example_update_parse j =
     (case j of JObj kvs \<Rightarrow> Inr j | _ \<Rightarrow> Inl (ValidationError ''Expected object''))"

definition example_member_role :: "example_store \<Rightarrow> string \<Rightarrow> string \<Rightarrow> error + role" where
  [example_defs]: "example_member_role d uid ws =
     (case map_of [((''alice'', ''ws1''), ''OWNER''), ((''bob'', ''ws1''), ''VIEWER'')] (uid, ws) of
        None \<Rightarrow> Inl (AuthorizationError ''not a member of the workspace'')
      | Some r \<Rightarrow> Inr r)"

definition example_permissions :: "role \<Rightarrow> permission list" where
  [example_defs]: "example_permissions r =
     (if r = ''OWNER'' then [CREATE_TASK, EDIT_TASK, VIEW_ONLY, DELETE_TASK]
      else if r = ''VIEWER'' then [VIEW_ONLY]
      else [])"

definition example_findById :: "example_store \<Rightarrow> string option \<Rightarrow> error + user option" where
  [example_defs]: "example_findById d i =
     (if i = Some ''u1''
      then Inr (Some \<lparr>user_id = ''u1'', name = ''Carol'', email = ''carol@example.org''\<rparr>)
      else Inr None)"

definition example_create ::
  "example_store \<Rightarrow> string \<Rightarrow> string \<Rightarrow> string \<Rightarrow> create_body \<Rightarrow> (error + task) \<times> example_store" where
  [example_defs]: "example_create d ws pid uid b =
     (let t = \<lparr>taskId = ''task-'' @ bodyTitle b,
                title = bodyTitle b,
                description = (case bodyDescription b of None \<Rightarrow> [] | Some x \<Rightarrow> x),
                taskStatus = ''TODO'',
                taskPriority = ''MEDIUM'',
                taskAssignedTo = bodyAssignedTo b,
                taskWorkspace = ws,
                taskProject = pid\<rparr>
      in (Inr t, d @ [t]))"

definition example_get :: "example_store \<Rightarrow> string \<Rightarrow> string \<Rightarrow> string \<Rightarrow> error + task" where
  [example_defs]: "example_get d ws pid tid =
     (case find (\<lambda>t. taskId t = tid \<and> taskWorkspace t = ws \<and> taskProject t = pid) d of
        None \<Rightarrow> Inl (NotFoundError ''Task not found.'')
      | Some t \<Rightarrow> Inr t)"

definition example_update ::
  "example_store \<Rightarrow> string \<Rightarrow> string \<Rightarrow> string \<Rightarrow> json \<Rightarrow> (error + task) \<times> example_store" where
  [example_defs]: "example_update d ws pid tid b =
     (case example_get d ws pid tid of
        Inl e \<Rightarrow> (Inl e, d)
      | Inr t \<Rightarrow>
          (let t' = (case b of
                       JObj kvs \<Rightarrow>
                         (case example_field kvs ''title'' of None \<Rightarrow> t | Some s \<Rightarrow> t\<lparr>title := s\<rparr>)
                     | _ \<Rightarrow> t)
           in (Inr t', map (\<lambda>x. if taskId x = tid then t' else x) d)))"

definition example_delete ::
  "example_store \<Rightarrow> string \<Rightarrow> string \<Rightarrow> (error + unit) \<times> example_store" where
  [example_defs]: "example_delete d ws tid =
     (if list_ex (\<lambda>t. taskId t = tid \<and> taskWorkspace t = ws) d
      then (Inr (), filter (\<lambda>t. taskId t \<noteq> tid) d)
      else (Inl (NotFoundError ''Task not found.''), d))"

definition example_list :: "example_store \<Rightarrow> string \<Rightarrow> filters \<Rightarrow> pagination \<Rightarrow> error + object" where
  [example_defs]: "example_list d ws f p =
     Inr [(''tasks'', VJson (JArr (map (\<lambda>t. JStr (title t)) (filter (\<lambda>t. taskWorkspace t = ws) d)))),
          (''totalCount'', VJson (JNum (int (length (filter (\<lambda>t. taskWorkspace t = ws) d)))))]"

definition example_env :: "example_store env" where
  [example_defs]: "example_env =
     \<lparr>createTaskSchema_parse = example_create_parse,
      updateTaskSchema_parse = example_update_parse,
      taskIdSchema_parse = example_id_parse,
      projectIdSchema_parse = example_id_parse,
      workspaceIdSchema_parse = example_id_parse,
      getMemberRoleInWorkspace = example_member_role,
      rolePermissions = example_permissions,
      UserModel_findById = example_findById,
      createTaskService = example_create,
      updateTaskService = example_update,
      getAllTasksService = example_list,
      getTaskByIdService = example_get,
      deleteTaskService = example_delete,
      resend_emails_send = (\<lambda>opts. Inr (JObj [(''id'', JStr ''email-1'')])),
      FRONTEND_ORIGIN = Some ''app.example.org''\<rparr>"

text \<open>The same system with a provider that rejects every send.\<close>

definition failing_provider_env :: "example_store env" where
  [example_defs]: "failing_provider_env =
     example_env\<lparr>resend_emails_send := (\<lambda>opts. Inl (ProviderError ''Too many requests''))\<rparr>"

text \<open>A task in the store, an empty world and a world that holds the task.\<close>

definition example_task :: task where
  [example_defs]: "example_task =
     \<lparr>taskId = ''t1'', title = ''Write report'', description = ''Quarterly numbers'',
      taskStatus = ''TODO'', taskPriority = ''HIGH'', taskAssignedTo = Some ''u1'',
      taskWorkspace = ''ws1'', taskProject = ''p1''\<rparr>"

definition empty_world :: "example_store world" where
  [example_defs]: "empty_world = \<lparr>db = [], trace = []\<rparr>"

definition example_world :: "example_store world" where
  [example_defs]: "example_world = \<lparr>db = [example_task], trace = []\<rparr>"

text \<open>Requests: who asks, with which body, on which task, project and workspace.\<close>

definition example_request :: "string \<Rightarrow> json \<Rightarrow> string option \<Rightarrow> request" where
  [example_defs]: "example_request uid b tid =
     \<lparr>h_userid = uid, body = b,
      params = \<lparr>p_id = tid, p_projectId = Some ''p1'', p_workspaceId = Some ''ws1''\<rparr>,
      query = \<lparr>q_projectId = None, q_status = None, q_priority = None, q_assignedTo = None,
               q_keyword = None, q_dueDate = None, q_pageSize = None, q_pageNumber = None\<rparr>\<rparr>"

definition create_json :: "string \<Rightarrow> string \<Rightarrow> json" where
  [example_defs]: "create_json t a = JObj [(''title'', JStr t), (''description'', JStr ''Quarterly numbers''), (''assignedTo'', JStr a)]"

text \<open>
  The owner asks to create a task assigned to the user \<open>a\<close>; the body the schema
  returns for it, and the task the service creates.
\<close>

definition create_request :: "string \<Rightarrow> request" where
  [example_defs]: "create_request a = example_request ''alice'' (create_json ''Write report'' a) None"

definition example_body :: "string \<Rightarrow> create_body" where
  [example_defs]: "example_body a =
     \<lparr>bodyTitle = ''Write report'', bodyDescription = Some ''Quarterly numbers'',
      bodyAssignedTo = Some a\<rparr>"

definition example_created :: "string \<Rightarrow> task" where
  [example_defs]: "example_created a =
     \<lparr>taskId = ''task-Write report'', title = ''Write report'',
      description = ''Quarterly numbers'', taskStatus = ''TODO'', taskPriority = ''MEDIUM'',
      taskAssignedTo = Some a, taskWorkspace = ''ws1'', taskProject = ''p1''\<rparr>"

text \<open>The user the example tasks are assigned to, and the e-mail that tells her.\<close>

definition carol :: user where
  [example_defs]: "carol = \<lparr>user_id = ''u1'', name = ''Carol'', email = ''carol@example.org''\<rparr>"

definition example_email :: send_options where
  [example_defs]: "example_email =
     \<lparr>sendFrom = ''no-reply@techriserwanda.org'', sendTo = ''carol@example.org'',
      sendSubject = ''Task Assigned: Write report'',
      sendHtml = notification_html ''Carol'' (Some ''app.example.org'') ''ws1'' ''p1''
                   ''Write report'' ''Quarterly numbers''\<rparr>"



section \<open>Properties\<close>

subsection \<open>Running the asynchronous functions\<close>

text \<open>
  A run of \<^verbatim>\<open>notifyUser\<close>: it resolves, having called the provider once and
  written one console line, an error line when the provider rejected.
\<close>

lemma notifyUser_run:
  "notifyUser E p w =
     (Inr (),
      w\<lparr>trace := trace w @
          [Call_emails_send \<lparr>sendFrom = ''no-reply@techriserwanda.org'', sendTo = userEmail p,
                             sendSubject = subject p, sendHtml = message p\<rparr>,
           (case resend_emails_send E \<lparr>sendFrom = ''no-reply@techriserwanda.org'',
                   sendTo = userEmail p, sendSubject = subject p, sendHtml = message p\<rparr> of
              Inl e \<Rightarrow> Console_error ''Error sending email:'' e
            | Inr r \<Rightarrow> Console_log ''Email sent successfully:'' r)]\<rparr>)"
  by (simp add: notifyUser_def run_defs split: sum.split)

subsection \<open>The notification helper swallows provider failures\<close>

text \<open>
  C4. Whatever the parameters, the world and the outcome of the provider call,
  \<^verbatim>\<open>notifyUser\<close> resolves (its result is never a thrown error). When the provider
  call rejects with an error, what the run adds to the trace is the provider call
  followed by the console line \<^verbatim>\<open>Error sending email:\<close> with that error: the
  error is logged and not thrown again.
\<close>

theorem notifyUser_never_rejects:
  "fst (notifyUser E p w) = Inr ()
   \<and> (\<forall>e. resend_emails_send E \<lparr>sendFrom = ''no-reply@techriserwanda.org'',
                sendTo = userEmail p, sendSubject = subject p, sendHtml = message p\<rparr> = Inl e
          \<longrightarrow> new_events w (snd (notifyUser E p w)) =
                [Call_emails_send \<lparr>sendFrom = ''no-reply@techriserwanda.org'',
                    sendTo = userEmail p, sendSubject = subject p, sendHtml = message p\<rparr>,
                 Console_error ''Error sending email:'' e])"
  by (simp add: notifyUser_run new_events_def)

text \<open>The provider rejects every send; the helper still resolves, and the error is on the console.\<close>

theorem notifyUser_never_rejects_witness:
  "resend_emails_send failing_provider_env
      \<lparr>sendFrom = ''no-reply@techriserwanda.org'', sendTo = ''carol@example.org'',
       sendSubject = ''Task Assigned: Write report'', sendHtml = ''<p>Hello Carol,</p>''\<rparr>
     = Inl (ProviderError ''Too many requests'')
   \<and> fst (notifyUser failing_provider_env
            \<lparr>userEmail = ''carol@example.org'', subject = ''Task Assigned: Write report'',
             message = ''<p>Hello Carol,</p>''\<rparr> empty_world) = Inr ()
   \<and> new_events empty_world
        (snd (notifyUser failing_provider_env
            \<lparr>userEmail = ''carol@example.org'', subject = ''Task Assigned: Write report'',
             message = ''<p>Hello Carol,</p>''\<rparr> empty_world)) =
       [Call_emails_send \<lparr>sendFrom = ''no-reply@techriserwanda.org'',
           sendTo = ''carol@example.org'', sendSubject = ''Task Assigned: Write report'',
           sendHtml = ''<p>Hello Carol,</p>''\<rparr>,
        Console_error ''Error sending email:'' (ProviderError ''Too many requests'')]"
  using notifyUser_never_rejects [of failing_provider_env
      "\<lparr>userEmail = ''carol@example.org'', subject = ''Task Assigned: Write report'',
        message = ''<p>Hello Carol,</p>''\<rparr>" empty_world]
  by (simp add: failing_provider_env_def example_env_def)

subsection \<open>The permission check comes before the task service\<close>

text \<open>
  In each mutating controller the role guard stands between the role lookup and the task
  service: a role without the permission ends the run with an error, the store untouched
  and no task service called, whatever the rest of the request.
\<close>

lemma create_denied:
  assumes "role_lacks E req w CREATE_TASK"
  shows "case createTaskController E req w of (res, w') \<Rightarrow>
           no_task_service w w' \<and> isl res \<and> (create_valid E req \<longrightarrow> is_authorization_failure res)"
  using assms
  by (auto simp: createTaskController_def role_lacks_def create_valid_def no_task_service_def
        new_events_def roleGuard_def run_defs Let_def split: sum.splits prod.splits)

lemma update_denied:
  assumes "role_lacks E req w EDIT_TASK"
  shows "case updateTaskController E req w of (res, w') \<Rightarrow>
           no_task_service w w' \<and> isl res \<and> (update_valid E req \<longrightarrow> is_authorization_failure res)"
  using assms
  by (auto simp: updateTaskController_def role_lacks_def update_valid_def no_task_service_def
        new_events_def roleGuard_def run_defs Let_def split: sum.splits prod.splits)

lemma delete_denied:
  assumes "role_lacks E req w DELETE_TASK"
  shows "case deleteTaskController E req w of (res, w') \<Rightarrow>
           no_task_service w w' \<and> isl res \<and> (delete_valid E req \<longrightarrow> is_authorization_failure res)"
  using assms
  by (auto simp: deleteTaskController_def role_lacks_def delete_valid_def no_task_service_def
        new_events_def roleGuard_def run_defs Let_def split: sum.splits prod.splits)

text \<open>
  Such a run does nothing at all but, at most, the role lookup: the guard throws before
  the controller has called anything else.
\<close>

lemma create_denied_quiet:
  assumes "role_lacks E req w CREATE_TASK"
  shows "only_role_lookup E req w (snd (createTaskController E req w))"
  using assms
  by (auto simp: createTaskController_def role_lacks_def only_role_lookup_def
        roleGuard_def run_defs Let_def split: sum.splits prod.splits)

lemma update_denied_quiet:
  assumes "role_lacks E req w EDIT_TASK"
  shows "only_role_lookup E req w (snd (updateTaskController E req w))"
  using assms
  by (auto simp: updateTaskController_def role_lacks_def only_role_lookup_def
        roleGuard_def run_defs Let_def split: sum.splits prod.splits)

lemma delete_denied_quiet:
  assumes "role_lacks E req w DELETE_TASK"
  shows "only_role_lookup E req w (snd (deleteTaskController E req w))"
  using assms
  by (auto simp: deleteTaskController_def role_lacks_def only_role_lookup_def
        roleGuard_def run_defs Let_def split: sum.splits prod.splits)

text \<open>
  C1, as stated, promises an authorization failure for every request of a caller whose
  role lacks the permission. The schemas run first: a caller without \<open>CREATE_TASK\<close> who
  sends a body that the schema rejects gets the validation error, not an authorization
  failure.
\<close>

theorem validation_error_before_authorization:
  "role_lacks example_env (example_request ''bob'' JNull (Some ''t1'')) example_world CREATE_TASK
   \<and> \<not> is_authorization_failure
         (fst (createTaskController example_env (example_request ''bob'' JNull (Some ''t1'')) example_world))
   \<and> fst (createTaskController example_env (example_request ''bob'' JNull (Some ''t1'')) example_world)
       = Inl (ValidationError ''Expected object'')"
  by (simp add: createTaskController_def role_lacks_def run_defs example_defs Let_def)

text \<open>
  C1, amended. For every request to a mutating endpoint (create, update, delete) whose
  caller's role in the workspace lacks the required permission (\<open>CREATE_TASK\<close>,
  \<open>EDIT_TASK\<close>, \<open>DELETE_TASK\<close>): the permission check happens before any side
  effect, that is, the run leaves the world as it was but for, at most, the record of the
  role lookup (no task service is invoked, no other collaborator is called, nothing is
  sent or logged, and the store is unchanged); the run ends with an error; and that
  error is an authorization failure whenever the request passes the controller's
  validation (validation runs before the role lookup, so an invalid request surfaces its
  validation error instead).
\<close>

theorem permission_checked_before_any_side_effect:
  "(role_lacks E req w CREATE_TASK \<longrightarrow>
      (case createTaskController E req w of (res, w') \<Rightarrow>
         only_role_lookup E req w w' \<and> no_task_service w w' \<and> isl res
         \<and> (create_valid E req \<longrightarrow> is_authorization_failure res)))
   \<and> (role_lacks E req w EDIT_TASK \<longrightarrow>
      (case updateTaskController E req w of (res, w') \<Rightarrow>
         only_role_lookup E req w w' \<and> no_task_service w w' \<and> isl res
         \<and> (update_valid E req \<longrightarrow> is_authorization_failure res)))
   \<and> (role_lacks E req w DELETE_TASK \<longrightarrow>
      (case deleteTaskController E req w of (res, w') \<Rightarrow>
         only_role_lookup E req w w' \<and> no_task_service w w' \<and> isl res
         \<and> (delete_valid E req \<longrightarrow> is_authorization_failure res)))"
  using create_denied [of E req w] update_denied [of E req w] delete_denied [of E req w]
    create_denied_quiet [of E req w] update_denied_quiet [of E req w] delete_denied_quiet [of E req w]
  by (auto split: prod.splits)

text \<open>
  A viewer asks to create, to update and to delete a task with valid requests: each time
  the authorization failure, the stored task untouched and nothing in the trace but the
  role lookup.
\<close>

theorem permission_checked_before_any_side_effect_witness:
  "role_lacks example_env (example_request ''bob'' (create_json ''Write report'' ''u1'') (Some ''t1'')) example_world CREATE_TASK
   \<and> create_valid example_env (example_request ''bob'' (create_json ''Write report'' ''u1'') (Some ''t1''))
   \<and> is_authorization_failure (fst (createTaskController example_env (example_request ''bob'' (create_json ''Write report'' ''u1'') (Some ''t1'')) example_world))
   \<and> no_task_service example_world (snd (createTaskController example_env (example_request ''bob'' (create_json ''Write report'' ''u1'') (Some ''t1'')) example_world))
   \<and> only_role_lookup example_env (example_request ''bob'' (create_json ''Write report'' ''u1'') (Some ''t1'')) example_world
        (snd (createTaskController example_env (example_request ''bob'' (create_json ''Write report'' ''u1'') (Some ''t1'')) example_world))
   \<and> role_lacks example_env (example_request ''bob'' (JObj [(''title'', JStr ''Final report'')]) (Some ''t1'')) example_world EDIT_TASK
   \<and> update_valid example_env (example_request ''bob'' (JObj [(''title'', JStr ''Final report'')]) (Some ''t1''))
   \<and> is_authorization_failure (fst (updateTaskController example_env (example_request ''bob'' (JObj [(''title'', JStr ''Final report'')]) (Some ''t1'')) example_world))
   \<and> no_task_service example_world (snd (updateTaskController example_env (example_request ''bob'' (JObj [(''title'', JStr ''Final report'')]) (Some ''t1'')) example_world))
   \<and> only_role_lookup example_env (example_request ''bob'' (JObj [(''title'', JStr ''Final report'')]) (Some ''t1'')) example_world
        (snd (updateTaskController example_env (example_request ''bob'' (JObj [(''title'', JStr ''Final report'')]) (Some ''t1'')) example_world))
   \<and> role_lacks example_env (example_request ''bob'' JNull (Some ''t1'')) example_world DELETE_TASK
   \<and> delete_valid example_env (example_request ''bob'' JNull (Some ''t1''))
   \<and> is_authorization_failure (fst (deleteTaskController example_env (example_request ''bob'' JNull (Some ''t1'')) example_world))
   \<and> no_task_service example_world (snd (deleteTaskController example_env (example_request ''bob'' JNull (Some ''t1'')) example_world))
   \<and> only_role_lookup example_env (example_request ''bob'' JNull (Some ''t1'')) example_world
        (snd (deleteTaskController example_env (example_request ''bob'' JNull (Some ''t1'')) example_world))
   \<and> trace (snd (deleteTaskController example_env (example_request ''bob'' JNull (Some ''t1'')) example_world))
       = [Call_getMemberRoleInWorkspace ''bob'' ''ws1'']"
proof -
  have c: "role_lacks example_env (example_request ''bob'' (create_json ''Write report'' ''u1'') (Some ''t1'')) example_world CREATE_TASK"
    and cv: "create_valid example_env (example_request ''bob'' (create_json ''Write report'' ''u1'') (Some ''t1''))"
    and u: "role_lacks example_env (example_request ''bob'' (JObj [(''title'', JStr ''Final report'')]) (Some ''t1'')) example_world EDIT_TASK"
    and uv: "update_valid example_env (example_request ''bob'' (JObj [(''title'', JStr ''Final report'')]) (Some ''t1''))"
    and d: "role_lacks example_env (example_request ''bob'' JNull (Some ''t1'')) example_world DELETE_TASK"
    and dv: "delete_valid example_env (example_request ''bob'' JNull (Some ''t1''))"
    by (simp_all add: role_lacks_def create_valid_def update_valid_def delete_valid_def example_defs)
  have t: "trace (snd (deleteTaskController example_env (example_request ''bob'' JNull (Some ''t1'')) example_world))
       = [Call_getMemberRoleInWorkspace ''bob'' ''ws1'']"
    by (simp add: deleteTaskController_def roleGuard_def run_defs Let_def example_defs)
  from c cv u uv d dv t
    permission_checked_before_any_side_effect [of example_env "example_request ''bob'' (create_json ''Write report'' ''u1'') (Some ''t1'')" example_world]
    permission_checked_before_any_side_effect [of example_env "example_request ''bob'' (JObj [(''title'', JStr ''Final report'')]) (Some ''t1'')" example_world]
    permission_checked_before_any_side_effect [of example_env "example_request ''bob'' JNull (Some ''t1'')" example_world]
  show ?thesis
    by (auto split: prod.splits)
qed

subsection \<open>Creating a task\<close>

text \<open>
  A run of the create controller on a request that passes the schemas, whose caller's
  role holds \<open>CREATE_TASK\<close> and for which the task service returns a task \<open>t\<close>
  and the store \<open>d\<close>: the store is \<open>d\<close> from then on, and the outcome depends on the
  lookup of the assigned user alone.
\<close>

lemma createTask_after_creation:
  assumes "createTaskSchema_parse E (body req) = Inr b"
    and "projectIdSchema_parse E (p_projectId (params req)) = Inr pid"
    and "workspaceIdSchema_parse E (p_workspaceId (params req)) = Inr ws"
    and "getMemberRoleInWorkspace E (db w) (h_userid req) ws = Inr r"
    and "CREATE_TASK \<in> set (rolePermissions E r)"
    and "createTaskService E (db w) ws pid (h_userid req) b = (Inr t, d)"
  shows "createTaskController E req w =
     (case UserModel_findById E d (bodyAssignedTo b) of
        Inl e \<Rightarrow>
          (Inl e,
           w\<lparr>db := d,
             trace := trace w @ [Call_getMemberRoleInWorkspace (h_userid req) ws,
                                 Call_createTaskService ws pid (h_userid req) b,
                                 Call_findById (bodyAssignedTo b)]\<rparr>)
      | Inr None \<Rightarrow>
          (Inr \<lparr>statusCode = 400, jsonBody = [(''message'', VStr ''Assigned user not found.'')]\<rparr>,
           w\<lparr>db := d,
             trace := trace w @ [Call_getMemberRoleInWorkspace (h_userid req) ws,
                                 Call_createTaskService ws pid (h_userid req) b,
                                 Call_findById (bodyAssignedTo b)]\<rparr>)
      | Inr (Some u) \<Rightarrow>
          (Inr \<lparr>statusCode = 200,
                jsonBody = [(''message'', VStr ''Task created successfully and notification sent.''),
                            (''task'', VTask t)]\<rparr>,
           w\<lparr>db := d,
             trace := trace w @
               [Call_getMemberRoleInWorkspace (h_userid req) ws,
                Call_createTaskService ws pid (h_userid req) b,
                Call_findById (bodyAssignedTo b),
                Call_emails_send
                  \<lparr>sendFrom = ''no-reply@techriserwanda.org'', sendTo = email u,
                   sendSubject = ''Task Assigned: '' @ title t,
                   sendHtml = notification_html (name u) (FRONTEND_ORIGIN E) ws pid
                                (title t) (description t)\<rparr>,
                (case resend_emails_send E
                        \<lparr>sendFrom = ''no-reply@techriserwanda.org'', sendTo = email u,
                         sendSubject = ''Task Assigned: '' @ title t,
                         sendHtml = notification_html (name u) (FRONTEND_ORIGIN E) ws pid
                                      (title t) (description t)\<rparr> of
                   Inl e \<Rightarrow> Console_error ''Error sending email:'' e
                 | Inr v \<Rightarrow> Console_log ''Email sent successfully:'' v)]\<rparr>))"
  using assms
  by (simp add: createTaskController_def roleGuard_def notifyUser_run run_defs Let_def
        HTTPSTATUS_OK_def HTTPSTATUS_BAD_REQUEST_def split: sum.split option.split)

text \<open>The outcome of the create controller does not depend on the e-mail provider.\<close>

lemma createTask_outcome_without_provider:
  "fst (createTaskController (E\<lparr>resend_emails_send := f\<rparr>) req w) = fst (createTaskController E req w)"
  by (simp add: createTaskController_def roleGuard_def notifyUser_run run_defs Let_def
        split: sum.split option.split prod.split)

text \<open>
  C2. For every create-task request that passes validation (the three schemas accept it)
  and authorization (the caller's role holds \<open>CREATE_TASK\<close>), for which the task
  service creates the task \<open>t\<close> leaving the store \<open>d\<close>, and whose
  \<^verbatim>\<open>assignedTo\<close> does not resolve to a user (\<^verbatim>\<open>findById\<close> gives null): the
  response has status 400 and the body message \<^verbatim>\<open>Assigned user not found.\<close>, and the
  run ends in the store \<open>d\<close> that the task service left, the call of the task service
  coming before the lookup and nothing after it: the creation is not rolled back.
\<close>

theorem assignee_not_found_after_task_created:
  assumes "createTaskSchema_parse E (body req) = Inr b"
    and "projectIdSchema_parse E (p_projectId (params req)) = Inr pid"
    and "workspaceIdSchema_parse E (p_workspaceId (params req)) = Inr ws"
    and "getMemberRoleInWorkspace E (db w) (h_userid req) ws = Inr r"
    and "CREATE_TASK \<in> set (rolePermissions E r)"
    and "createTaskService E (db w) ws pid (h_userid req) b = (Inr t, d)"
    and "UserModel_findById E d (bodyAssignedTo b) = Inr None"
  shows "createTaskController E req w =
     (Inr \<lparr>statusCode = 400, jsonBody = [(''message'', VStr ''Assigned user not found.'')]\<rparr>,
      w\<lparr>db := d,
        trace := trace w @ [Call_getMemberRoleInWorkspace (h_userid req) ws,
                            Call_createTaskService ws pid (h_userid req) b,
                            Call_findById (bodyAssignedTo b)]\<rparr>)"
  using createTask_after_creation [OF assms(1-6)] assms(7) by simp

text \<open>
  The owner assigns a task to an unknown user: status 400, and the task is in the store.
\<close>

theorem assignee_not_found_after_task_created_witness:
  "createTaskSchema_parse example_env (body (create_request ''u9'')) = Inr (example_body ''u9'')
   \<and> projectIdSchema_parse example_env (p_projectId (params (create_request ''u9''))) = Inr ''p1''
   \<and> workspaceIdSchema_parse example_env (p_workspaceId (params (create_request ''u9''))) = Inr ''ws1''
   \<and> getMemberRoleInWorkspace example_env (db empty_world) (h_userid (create_request ''u9'')) ''ws1'' = Inr ''OWNER''
   \<and> CREATE_TASK \<in> set (rolePermissions example_env ''OWNER'')
   \<and> createTaskService example_env (db empty_world) ''ws1'' ''p1'' (h_userid (create_request ''u9'')) (example_body ''u9'')
       = (Inr (example_created ''u9''), [example_created ''u9''])
   \<and> UserModel_findById example_env [example_created ''u9''] (bodyAssignedTo (example_body ''u9'')) = Inr None
   \<and> createTaskController example_env (create_request ''u9'') empty_world =
       (Inr \<lparr>statusCode = 400, jsonBody = [(''message'', VStr ''Assigned user not found.'')]\<rparr>,
        \<lparr>db = [example_created ''u9''],
         trace = [Call_getMemberRoleInWorkspace ''alice'' ''ws1'',
                  Call_createTaskService ''ws1'' ''p1'' ''alice'' (example_body ''u9''),
                  Call_findById (Some ''u9'')]\<rparr>)"
proof -
  have h:
    "createTaskSchema_parse example_env (body (create_request ''u9'')) = Inr (example_body ''u9'')"
    "projectIdSchema_parse example_env (p_projectId (params (create_request ''u9''))) = Inr ''p1''"
    "workspaceIdSchema_parse example_env (p_workspaceId (params (create_request ''u9''))) = Inr ''ws1''"
    "getMemberRoleInWorkspace example_env (db empty_world) (h_userid (create_request ''u9'')) ''ws1'' = Inr ''OWNER''"
    "CREATE_TASK \<in> set (rolePermissions example_env ''OWNER'')"
    "createTaskService example_env (db empty_world) ''ws1'' ''p1'' (h_userid (create_request ''u9'')) (example_body ''u9'')
       = (Inr (example_created ''u9''), [example_created ''u9''])"
    by (simp_all add: example_defs Let_def)
  have l: "UserModel_findById example_env [example_created ''u9''] (bodyAssignedTo (example_body ''u9'')) = Inr None"
    by (simp add: example_defs)
  from assignee_not_found_after_task_created [OF h l] h l show ?thesis
    by (simp add: empty_world_def create_request_def example_request_def example_body_def)
qed

text \<open>
  C3. For every valid create-task request (schemas, permission and task service as in
  C2, the created task being \<open>t\<close>) whose \<^verbatim>\<open>assignedTo\<close> resolves to a user
  \<open>u\<close>: the response has status 200 and its body holds the success message and the
  created task, and the run calls the e-mail provider exactly once, to the user's
  address, with the subject \<^verbatim>\<open>Task Assigned: \<close> followed by the task's title.
\<close>

theorem create_task_success_and_one_email:
  assumes "createTaskSchema_parse E (body req) = Inr b"
    and "projectIdSchema_parse E (p_projectId (params req)) = Inr pid"
    and "workspaceIdSchema_parse E (p_workspaceId (params req)) = Inr ws"
    and "getMemberRoleInWorkspace E (db w) (h_userid req) ws = Inr r"
    and "CREATE_TASK \<in> set (rolePermissions E r)"
    and "createTaskService E (db w) ws pid (h_userid req) b = (Inr t, d)"
    and "UserModel_findById E d (bodyAssignedTo b) = Inr (Some u)"
  shows "fst (createTaskController E req w) =
           Inr \<lparr>statusCode = 200,
                jsonBody = [(''message'', VStr ''Task created successfully and notification sent.''),
                            (''task'', VTask t)]\<rparr>
       \<and> filter is_emails_send (new_events w (snd (createTaskController E req w))) =
           [Call_emails_send
              \<lparr>sendFrom = ''no-reply@techriserwanda.org'', sendTo = email u,
               sendSubject = ''Task Assigned: '' @ title t,
               sendHtml = notification_html (name u) (FRONTEND_ORIGIN E) ws pid
                            (title t) (description t)\<rparr>]"
  using createTask_after_creation [OF assms(1-6)] assms(7)
  by (simp add: new_events_def split: sum.split)

text \<open>The owner assigns a task to Carol: status 200 with the task, one e-mail to Carol.\<close>

theorem create_task_success_and_one_email_witness:
  "createTaskSchema_parse example_env (body (create_request ''u1'')) = Inr (example_body ''u1'')
   \<and> projectIdSchema_parse example_env (p_projectId (params (create_request ''u1''))) = Inr ''p1''
   \<and> workspaceIdSchema_parse example_env (p_workspaceId (params (create_request ''u1''))) = Inr ''ws1''
   \<and> getMemberRoleInWorkspace example_env (db empty_world) (h_userid (create_request ''u1'')) ''ws1'' = Inr ''OWNER''
   \<and> CREATE_TASK \<in> set (rolePermissions example_env ''OWNER'')
   \<and> createTaskService example_env (db empty_world) ''ws1'' ''p1'' (h_userid (create_request ''u1'')) (example_body ''u1'')
       = (Inr (example_created ''u1''), [example_created ''u1''])
   \<and> UserModel_findById example_env [example_created ''u1''] (bodyAssignedTo (example_body ''u1'')) = Inr (Some carol)
   \<and> fst (createTaskController example_env (create_request ''u1'') empty_world) =
       Inr \<lparr>statusCode = 200,
            jsonBody = [(''message'', VStr ''Task created successfully and notification sent.''),
                        (''task'', VTask (example_created ''u1''))]\<rparr>
   \<and> filter is_emails_send
        (new_events empty_world (snd (createTaskController example_env (create_request ''u1'') empty_world)))
       = [Call_emails_send example_email]
   \<and> sendSubject example_email = ''Task Assigned: Write report''"
proof -
  have h:
    "createTaskSchema_parse example_env (body (create_request ''u1'')) = Inr (example_body ''u1'')"
    "projectIdSchema_parse example_env (p_projectId (params (create_request ''u1''))) = Inr ''p1''"
    "workspaceIdSchema_parse example_env (p_workspaceId (params (create_request ''u1''))) = Inr ''ws1''"
    "getMemberRoleInWorkspace example_env (db empty_world) (h_userid (create_request ''u1'')) ''ws1'' = Inr ''OWNER''"
    "CREATE_TASK \<in> set (rolePermissions example_env ''OWNER'')"
    "createTaskService example_env (db empty_world) ''ws1'' ''p1'' (h_userid (create_request ''u1'')) (example_body ''u1'')
       = (Inr (example_created ''u1''), [example_created ''u1''])"
    by (simp_all add: example_defs Let_def)
  have l: "UserModel_findById example_env [example_created ''u1''] (bodyAssignedTo (example_body ''u1'')) = Inr (Some carol)"
    by (simp add: example_defs)
  from create_task_success_and_one_email [OF h l] h l show ?thesis
    by (simp add: example_email_def carol_def example_created_def example_env_def)
qed

text \<open>
  C5. For every create-task request with a resolvable assignee (as in C3) for which the
  provider rejects the send with an error \<open>e\<close>: the error is written to the console
  and the run goes on to the response with status 200, the success message and the
  created task. The outcome of the controller is the same under every provider, failing
  or not.
\<close>

theorem email_failure_keeps_success_response:
  assumes "createTaskSchema_parse E (body req) = Inr b"
    and "projectIdSchema_parse E (p_projectId (params req)) = Inr pid"
    and "workspaceIdSchema_parse E (p_workspaceId (params req)) = Inr ws"
    and "getMemberRoleInWorkspace E (db w) (h_userid req) ws = Inr r"
    and "CREATE_TASK \<in> set (rolePermissions E r)"
    and "createTaskService E (db w) ws pid (h_userid req) b = (Inr t, d)"
    and "UserModel_findById E d (bodyAssignedTo b) = Inr (Some u)"
    and "resend_emails_send E
           \<lparr>sendFrom = ''no-reply@techriserwanda.org'', sendTo = email u,
            sendSubject = ''Task Assigned: '' @ title t,
            sendHtml = notification_html (name u) (FRONTEND_ORIGIN E) ws pid
                         (title t) (description t)\<rparr> = Inl e"
  shows "createTaskController E req w =
           (Inr \<lparr>statusCode = 200,
                 jsonBody = [(''message'', VStr ''Task created successfully and notification sent.''),
                             (''task'', VTask t)]\<rparr>,
            w\<lparr>db := d,
              trace := trace w @
                [Call_getMemberRoleInWorkspace (h_userid req) ws,
                 Call_createTaskService ws pid (h_userid req) b,
                 Call_findById (bodyAssignedTo b),
                 Call_emails_send
                   \<lparr>sendFrom = ''no-reply@techriserwanda.org'', sendTo = email u,
                    sendSubject = ''Task Assigned: '' @ title t,
                    sendHtml = notification_html (name u) (FRONTEND_ORIGIN E) ws pid
                                 (title t) (description t)\<rparr>,
                 Console_error ''Error sending email:'' e]\<rparr>)
       \<and> (\<forall>f. fst (createTaskController (E\<lparr>resend_emails_send := f\<rparr>) req w) =
                fst (createTaskController E req w))"
  using createTask_after_creation [OF assms(1-6)] assms(7,8)
  by (simp add: createTask_outcome_without_provider)

text \<open>
  The provider rejects the e-mail to Carol: the response is the one of the system whose
  provider accepts it.
\<close>

theorem email_failure_keeps_success_response_witness:
  "createTaskSchema_parse failing_provider_env (body (create_request ''u1'')) = Inr (example_body ''u1'')
   \<and> projectIdSchema_parse failing_provider_env (p_projectId (params (create_request ''u1''))) = Inr ''p1''
   \<and> workspaceIdSchema_parse failing_provider_env (p_workspaceId (params (create_request ''u1''))) = Inr ''ws1''
   \<and> getMemberRoleInWorkspace failing_provider_env (db empty_world) (h_userid (create_request ''u1'')) ''ws1'' = Inr ''OWNER''
   \<and> CREATE_TASK \<in> set (rolePermissions failing_provider_env ''OWNER'')
   \<and> createTaskService failing_provider_env (db empty_world) ''ws1'' ''p1'' (h_userid (create_request ''u1'')) (example_body ''u1'')
       = (Inr (example_created ''u1''), [example_created ''u1''])
   \<and> UserModel_findById failing_provider_env [example_created ''u1''] (bodyAssignedTo (example_body ''u1'')) = Inr (Some carol)
   \<and> resend_emails_send failing_provider_env example_email = Inl (ProviderError ''Too many requests'')
   \<and> createTaskController failing_provider_env (create_request ''u1'') empty_world =
       (Inr \<lparr>statusCode = 200,
             jsonBody = [(''message'', VStr ''Task created successfully and notification sent.''),
                         (''task'', VTask (example_created ''u1''))]\<rparr>,
        \<lparr>db = [example_created ''u1''],
         trace = [Call_getMemberRoleInWorkspace ''alice'' ''ws1'',
                  Call_createTaskService ''ws1'' ''p1'' ''alice'' (example_body ''u1''),
                  Call_findById (Some ''u1''),
                  Call_emails_send example_email,
                  Console_error ''Error sending email:'' (ProviderError ''Too many requests'')]\<rparr>)
   \<and> fst (createTaskController example_env (create_request ''u1'') empty_world) =
       fst (createTaskController failing_provider_env (create_request ''u1'') empty_world)"
proof -
  have h:
    "createTaskSchema_parse failing_provider_env (body (create_request ''u1'')) = Inr (example_body ''u1'')"
    "projectIdSchema_parse failing_provider_env (p_projectId (params (create_request ''u1''))) = Inr ''p1''"
    "workspaceIdSchema_parse failing_provider_env (p_workspaceId (params (create_request ''u1''))) = Inr ''ws1''"
    "getMemberRoleInWorkspace failing_provider_env (db empty_world) (h_userid (create_request ''u1'')) ''ws1'' = Inr ''OWNER''"
    "CREATE_TASK \<in> set (rolePermissions failing_provider_env ''OWNER'')"
    "createTaskService failing_provider_env (db empty_world) ''ws1'' ''p1'' (h_userid (create_request ''u1'')) (example_body ''u1'')
       = (Inr (example_created ''u1''), [example_created ''u1''])"
    by (simp_all add: example_defs Let_def)
  have l: "UserModel_findById failing_provider_env [example_created ''u1''] (bodyAssignedTo (example_body ''u1'')) = Inr (Some carol)"
    by (simp add: example_defs)
  have p: "resend_emails_send failing_provider_env
             \<lparr>sendFrom = ''no-reply@techriserwanda.org'', sendTo = email carol,
              sendSubject = ''Task Assigned: '' @ title (example_created ''u1''),
              sendHtml = notification_html (name carol) (FRONTEND_ORIGIN failing_provider_env) ''ws1'' ''p1''
                           (title (example_created ''u1'')) (description (example_created ''u1''))\<rparr>
           = Inl (ProviderError ''Too many requests'')"
    by (simp add: failing_provider_env_def example_env_def)
  have e: "example_env = failing_provider_env\<lparr>resend_emails_send := (\<lambda>opts. Inr (JObj [(''id'', JStr ''email-1'')]))\<rparr>"
    by (simp add: failing_provider_env_def example_env_def)
  note t = email_failure_keeps_success_response [OF h l p]
  from t have same: "fst (createTaskController example_env (create_request ''u1'') empty_world) =
      fst (createTaskController failing_provider_env (create_request ''u1'') empty_world)"
    unfolding e by blast
  from t have run: "createTaskController failing_provider_env (create_request ''u1'') empty_world =
       (Inr \<lparr>statusCode = 200,
             jsonBody = [(''message'', VStr ''Task created successfully and notification sent.''),
                         (''task'', VTask (example_created ''u1''))]\<rparr>,
        \<lparr>db = [example_created ''u1''],
         trace = [Call_getMemberRoleInWorkspace ''alice'' ''ws1'',
                  Call_createTaskService ''ws1'' ''p1'' ''alice'' (example_body ''u1''),
                  Call_findById (Some ''u1''),
                  Call_emails_send example_email,
                  Console_error ''Error sending email:'' (ProviderError ''Too many requests'')]\<rparr>)"
    by (simp add: example_email_def carol_def example_created_def empty_world_def
          create_request_def example_request_def example_body_def failing_provider_env_def example_env_def)
  have p': "resend_emails_send failing_provider_env example_email = Inl (ProviderError ''Too many requests'')"
    by (simp add: failing_provider_env_def example_env_def)
  from h l p' run same show ?thesis
    by blast
qed

text \<open>
  C9. For every create-task request that reaches the final response step (the controller
  answers, with status 200), under every environment and so whatever the provider did
  with the e-mail, the message of the body is
  \<^verbatim>\<open>Task created successfully and notification sent.\<close>
\<close>

theorem success_message_is_fixed:
  assumes "fst (createTaskController E req w) = Inr resp"
    and "statusCode resp = HTTPSTATUS_OK"
  shows "map_of (jsonBody resp) ''message'' =
           Some (VStr ''Task created successfully and notification sent.'')"
  using assms
  by (auto simp: createTaskController_def roleGuard_def notifyUser_run run_defs Let_def
        HTTPSTATUS_OK_def HTTPSTATUS_BAD_REQUEST_def split: sum.splits option.splits prod.splits if_splits)

text \<open>The provider rejected the e-mail, and the message still says that it was sent.\<close>

theorem success_message_is_fixed_witness:
  "resend_emails_send failing_provider_env example_email = Inl (ProviderError ''Too many requests'')
   \<and> fst (createTaskController failing_provider_env (create_request ''u1'') empty_world) =
       Inr \<lparr>statusCode = 200,
            jsonBody = [(''message'', VStr ''Task created successfully and notification sent.''),
                        (''task'', VTask (example_created ''u1''))]\<rparr>
   \<and> statusCode \<lparr>statusCode = 200,
            jsonBody = [(''message'', VStr ''Task created successfully and notification sent.''),
                        (''task'', VTask (example_created ''u1''))]\<rparr> = HTTPSTATUS_OK
   \<and> map_of (jsonBody \<lparr>statusCode = 200,
            jsonBody = [(''message'', VStr ''Task created successfully and notification sent.''),
                        (''task'', VTask (example_created ''u1''))]\<rparr>) ''message'' =
       Some (VStr ''Task created successfully and notification sent.'')"
proof -
  have r: "fst (createTaskController failing_provider_env (create_request ''u1'') empty_world) =
       Inr \<lparr>statusCode = 200,
            jsonBody = [(''message'', VStr ''Task created successfully and notification sent.''),
                        (''task'', VTask (example_created ''u1''))]\<rparr>"
    by (simp add: createTaskController_def roleGuard_def notifyUser_run run_defs Let_def
          HTTPSTATUS_OK_def example_defs)
  have s: "statusCode \<lparr>statusCode = 200,
            jsonBody = [(''message'', VStr ''Task created successfully and notification sent.''),
                        (''task'', VTask (example_created ''u1''))]\<rparr> = HTTPSTATUS_OK"
    by (simp add: HTTPSTATUS_OK_def)
  from success_message_is_fixed [OF r s] r s show ?thesis
    by (simp add: failing_provider_env_def example_env_def)
qed

subsection \<open>Updating a task\<close>

text \<open>
  The update controller writes nothing to the console and never calls the provider; it
  calls the task service only after the schemas and the role guard; and on a valid,
  authorized request it answers with the task the service returns.
\<close>

lemma updateTask_no_notification:
  "\<not> list_ex is_notification (new_events w (snd (updateTaskController E req w)))"
  by (auto simp: updateTaskController_def roleGuard_def new_events_def run_defs Let_def
        split: sum.splits prod.splits)

lemma updateTask_service_guarded:
  "list_ex is_task_service_call (new_events w (snd (updateTaskController E req w)))
     \<Longrightarrow> update_valid E req \<and> role_holds E req w EDIT_TASK"
  by (auto simp: updateTaskController_def roleGuard_def new_events_def run_defs Let_def
        update_valid_def role_holds_def split: sum.splits prod.splits if_splits)

lemma updateTask_success:
  assumes "updateTaskSchema_parse E (body req) = Inr b"
    and "taskIdSchema_parse E (p_id (params req)) = Inr tid"
    and "projectIdSchema_parse E (p_projectId (params req)) = Inr pid"
    and "workspaceIdSchema_parse E (p_workspaceId (params req)) = Inr ws"
    and "getMemberRoleInWorkspace E (db w) (h_userid req) ws = Inr r"
    and "EDIT_TASK \<in> set (rolePermissions E r)"
    and "updateTaskService E (db w) ws pid tid b = (Inr t, d)"
  shows "updateTaskController E req w =
     (Inr \<lparr>statusCode = 200,
           jsonBody = [(''message'', VStr ''Task updated successfully''), (''task'', VTask t)]\<rparr>,
      w\<lparr>db := d,
        trace := trace w @ [Call_getMemberRoleInWorkspace (h_userid req) ws,
                            Call_updateTaskService ws pid tid b]\<rparr>)"
  using assms
  by (simp add: updateTaskController_def roleGuard_def run_defs Let_def HTTPSTATUS_OK_def)

text \<open>
  C7. For every update-task request: the run adds no notification event to the trace (no
  call of the e-mail provider, no console line, so \<^verbatim>\<open>notifyUser\<close> was not run);
  a task service is called only if the body and the ids passed the schemas and the
  caller's role holds \<open>EDIT_TASK\<close>; and when they did and the update service returns
  the task \<open>t\<close> and the store \<open>d\<close>, the response has status 200 with the message
  and \<open>t\<close>, the update service having been called once, with the parsed ids and body.
\<close>

theorem update_task_returns_task_without_notification:
  "\<not> list_ex is_notification (new_events w (snd (updateTaskController E req w)))
   \<and> (list_ex is_task_service_call (new_events w (snd (updateTaskController E req w)))
        \<longrightarrow> update_valid E req \<and> role_holds E req w EDIT_TASK)
   \<and> (\<forall>b tid pid ws r t d.
         updateTaskSchema_parse E (body req) = Inr b
         \<and> taskIdSchema_parse E (p_id (params req)) = Inr tid
         \<and> projectIdSchema_parse E (p_projectId (params req)) = Inr pid
         \<and> workspaceIdSchema_parse E (p_workspaceId (params req)) = Inr ws
         \<and> getMemberRoleInWorkspace E (db w) (h_userid req) ws = Inr r
         \<and> EDIT_TASK \<in> set (rolePermissions E r)
         \<and> updateTaskService E (db w) ws pid tid b = (Inr t, d)
         \<longrightarrow> updateTaskController E req w =
               (Inr \<lparr>statusCode = 200,
                     jsonBody = [(''message'', VStr ''Task updated successfully''),
                                 (''task'', VTask t)]\<rparr>,
                w\<lparr>db := d,
                  trace := trace w @ [Call_getMemberRoleInWorkspace (h_userid req) ws,
                                      Call_updateTaskService ws pid tid b]\<rparr>))"
  using updateTask_no_notification [of w E req] updateTask_service_guarded [of w E req]
    updateTask_success [of E req _ _ _ _ w]
  by blast

text \<open>The owner renames the stored task: status 200 with the renamed task, no e-mail.\<close>

theorem update_task_returns_task_without_notification_witness:
  "updateTaskSchema_parse example_env (body (example_request ''alice'' (JObj [(''title'', JStr ''Final report'')]) (Some ''t1'')))
     = Inr (JObj [(''title'', JStr ''Final report'')])
   \<and> taskIdSchema_parse example_env (p_id (params (example_request ''alice'' (JObj [(''title'', JStr ''Final report'')]) (Some ''t1'')))) = Inr ''t1''
   \<and> projectIdSchema_parse example_env (p_projectId (params (example_request ''alice'' (JObj [(''title'', JStr ''Final report'')]) (Some ''t1'')))) = Inr ''p1''
   \<and> workspaceIdSchema_parse example_env (p_workspaceId (params (example_request ''alice'' (JObj [(''title'', JStr ''Final report'')]) (Some ''t1'')))) = Inr ''ws1''
   \<and> getMemberRoleInWorkspace example_env (db example_world) (h_userid (example_request ''alice'' (JObj [(''title'', JStr ''Final report'')]) (Some ''t1''))) ''ws1'' = Inr ''OWNER''
   \<and> EDIT_TASK \<in> set (rolePermissions example_env ''OWNER'')
   \<and> updateTaskService example_env (db example_world) ''ws1'' ''p1'' ''t1'' (JObj [(''title'', JStr ''Final report'')])
       = (Inr (example_task\<lparr>title := ''Final report''\<rparr>), [example_task\<lparr>title := ''Final report''\<rparr>])
   \<and> updateTaskController example_env (example_request ''alice'' (JObj [(''title'', JStr ''Final report'')]) (Some ''t1'')) example_world =
       (Inr \<lparr>statusCode = 200,
             jsonBody = [(''message'', VStr ''Task updated successfully''),
                         (''task'', VTask (example_task\<lparr>title := ''Final report''\<rparr>))]\<rparr>,
        \<lparr>db = [example_task\<lparr>title := ''Final report''\<rparr>],
         trace = [Call_getMemberRoleInWorkspace ''alice'' ''ws1'',
                  Call_updateTaskService ''ws1'' ''p1'' ''t1'' (JObj [(''title'', JStr ''Final report'')])]\<rparr>)
   \<and> list_ex is_task_service_call
        (new_events example_world (snd (updateTaskController example_env (example_request ''alice'' (JObj [(''title'', JStr ''Final report'')]) (Some ''t1'')) example_world)))
   \<and> update_valid example_env (example_request ''alice'' (JObj [(''title'', JStr ''Final report'')]) (Some ''t1''))
   \<and> role_holds example_env (example_request ''alice'' (JObj [(''title'', JStr ''Final report'')]) (Some ''t1'')) example_world EDIT_TASK
   \<and> \<not> list_ex is_notification
        (new_events example_world (snd (updateTaskController example_env (example_request ''alice'' (JObj [(''title'', JStr ''Final report'')]) (Some ''t1'')) example_world)))"
proof -
  let ?req = "example_request ''alice'' (JObj [(''title'', JStr ''Final report'')]) (Some ''t1'')"
  have h: "updateTaskSchema_parse example_env (body ?req) = Inr (JObj [(''title'', JStr ''Final report'')])"
    "taskIdSchema_parse example_env (p_id (params ?req)) = Inr ''t1''"
    "projectIdSchema_parse example_env (p_projectId (params ?req)) = Inr ''p1''"
    "workspaceIdSchema_parse example_env (p_workspaceId (params ?req)) = Inr ''ws1''"
    "getMemberRoleInWorkspace example_env (db example_world) (h_userid ?req) ''ws1'' = Inr ''OWNER''"
    "EDIT_TASK \<in> set (rolePermissions example_env ''OWNER'')"
    "updateTaskService example_env (db example_world) ''ws1'' ''p1'' ''t1'' (JObj [(''title'', JStr ''Final report'')])
       = (Inr (example_task\<lparr>title := ''Final report''\<rparr>), [example_task\<lparr>title := ''Final report''\<rparr>])"
    by (simp_all add: example_defs Let_def)
  note t = update_task_returns_task_without_notification [of example_world example_env ?req]
  from t h have run: "updateTaskController example_env ?req example_world =
       (Inr \<lparr>statusCode = 200,
             jsonBody = [(''message'', VStr ''Task updated successfully''),
                         (''task'', VTask (example_task\<lparr>title := ''Final report''\<rparr>))]\<rparr>,
        example_world\<lparr>db := [example_task\<lparr>title := ''Final report''\<rparr>],
         trace := trace example_world @ [Call_getMemberRoleInWorkspace (h_userid ?req) ''ws1'',
                  Call_updateTaskService ''ws1'' ''p1'' ''t1'' (JObj [(''title'', JStr ''Final report'')])]\<rparr>)"
    by blast
  have run': "updateTaskController example_env ?req example_world =
       (Inr \<lparr>statusCode = 200,
             jsonBody = [(''message'', VStr ''Task updated successfully''),
                         (''task'', VTask (example_task\<lparr>title := ''Final report''\<rparr>))]\<rparr>,
        \<lparr>db = [example_task\<lparr>title := ''Final report''\<rparr>],
         trace = [Call_getMemberRoleInWorkspace ''alice'' ''ws1'',
                  Call_updateTaskService ''ws1'' ''p1'' ''t1'' (JObj [(''title'', JStr ''Final report'')])]\<rparr>)"
    unfolding run by (simp add: example_world_def example_request_def)
  have called: "list_ex is_task_service_call (new_events example_world (snd (updateTaskController example_env ?req example_world)))"
    unfolding run' by (simp add: new_events_def example_world_def)
  from t called have g: "update_valid example_env ?req" "role_holds example_env ?req example_world EDIT_TASK"
    by blast+
  from t have n: "\<not> list_ex is_notification (new_events example_world (snd (updateTaskController example_env ?req example_world)))"
    by blast
  from h run' called g n show ?thesis by blast
qed

subsection \<open>Fetching a task\<close>

text \<open>
  The outcome of the fetch controller is a function of the ids, the caller and the store;
  the controller leaves the store as it found it.
\<close>

lemma getTaskById_outcome:
  "fst (getTaskByIdController E req w) =
     (case taskIdSchema_parse E (p_id (params req)) of Inl e \<Rightarrow> Inl e | Inr tid \<Rightarrow>
      case projectIdSchema_parse E (p_projectId (params req)) of Inl e \<Rightarrow> Inl e | Inr pid \<Rightarrow>
      case workspaceIdSchema_parse E (p_workspaceId (params req)) of Inl e \<Rightarrow> Inl e | Inr ws \<Rightarrow>
      case getMemberRoleInWorkspace E (db w) (h_userid req) ws of Inl e \<Rightarrow> Inl e | Inr r \<Rightarrow>
      case roleGuard E r [VIEW_ONLY] of Inl e \<Rightarrow> Inl e | Inr u \<Rightarrow>
      case getTaskByIdService E (db w) ws pid tid of Inl e \<Rightarrow> Inl e | Inr t \<Rightarrow>
        Inr \<lparr>statusCode = 200,
             jsonBody = [(''message'', VStr ''Task fetched successfully''), (''task'', VTask t)]\<rparr>)"
  by (simp add: getTaskByIdController_def run_defs Let_def HTTPSTATUS_OK_def split: sum.split)

lemma getTaskById_reads_only:
  "db (snd (getTaskByIdController E req w)) = db w"
  by (simp add: getTaskByIdController_def run_defs Let_def split: sum.split)

lemma getTaskById_same_caller:
  "params r1 = params r2 \<Longrightarrow> db w1 = db w2 \<Longrightarrow> h_userid r1 = h_userid r2
     \<Longrightarrow> fst (getTaskByIdController E r1 w1) = fst (getTaskByIdController E r2 w2)"
  by (simp add: getTaskById_outcome cong: sum.case_cong)

lemma getTaskById_same_ids:
  "params r1 = params r2 \<Longrightarrow> db w1 = db w2
     \<Longrightarrow> fst (getTaskByIdController E r1 w1) = Inr x
     \<Longrightarrow> fst (getTaskByIdController E r2 w2) = Inr y \<Longrightarrow> x = y"
  by (auto simp: getTaskById_outcome split: sum.splits)

text \<open>
  C8. Take two getTaskById requests with the same ids (the task id, with the project and
  workspace ids of its path), issued against the same store. If the caller is the same,
  the two outcomes are identical. Whoever the callers are, if both requests are answered,
  the two responses are identical, task data included. And the controller does not change
  the store, so the second of two requests in a row runs against the store of the first.
\<close>

theorem getTaskById_idempotent:
  "(params r1 = params r2 \<and> h_userid r1 = h_userid r2 \<and> db w1 = db w2
      \<longrightarrow> fst (getTaskByIdController E r1 w1) = fst (getTaskByIdController E r2 w2))
   \<and> (params r1 = params r2 \<and> db w1 = db w2
      \<longrightarrow> (\<forall>x y. fst (getTaskByIdController E r1 w1) = Inr x
                 \<and> fst (getTaskByIdController E r2 w2) = Inr y \<longrightarrow> x = y))
   \<and> db (snd (getTaskByIdController E r1 w1)) = db w1"
  using getTaskById_same_caller [of r1 r2 w1 w2 E] getTaskById_same_ids [of r1 r2 w1 w2 E]
    getTaskById_reads_only [of E r1 w1]
  by blast

text \<open>
  The owner fetches the stored task twice in a row, then the viewer fetches it: three
  times the same response.
\<close>

theorem getTaskById_idempotent_witness:
  "params (example_request ''alice'' JNull (Some ''t1'')) = params (example_request ''bob'' (JObj []) (Some ''t1''))
   \<and> db example_world
       = db (snd (getTaskByIdController example_env (example_request ''alice'' JNull (Some ''t1'')) example_world))
   \<and> fst (getTaskByIdController example_env (example_request ''alice'' JNull (Some ''t1'')) example_world) =
       Inr \<lparr>statusCode = 200,
            jsonBody = [(''message'', VStr ''Task fetched successfully''), (''task'', VTask example_task)]\<rparr>
   \<and> fst (getTaskByIdController example_env (example_request ''alice'' JNull (Some ''t1''))
            (snd (getTaskByIdController example_env (example_request ''alice'' JNull (Some ''t1'')) example_world))) =
       Inr \<lparr>statusCode = 200,
            jsonBody = [(''message'', VStr ''Task fetched successfully''), (''task'', VTask example_task)]\<rparr>
   \<and> fst (getTaskByIdController example_env (example_request ''bob'' (JObj []) (Some ''t1''))
            (snd (getTaskByIdController example_env (example_request ''alice'' JNull (Some ''t1'')) example_world))) =
       Inr \<lparr>statusCode = 200,
            jsonBody = [(''message'', VStr ''Task fetched successfully''), (''task'', VTask example_task)]\<rparr>"
proof -
  let ?a = "example_request ''alice'' JNull (Some ''t1'')"
  let ?b = "example_request ''bob'' (JObj []) (Some ''t1'')"
  let ?w = "snd (getTaskByIdController example_env ?a example_world)"
  let ?r = "\<lparr>statusCode = 200,
            jsonBody = [(''message'', VStr ''Task fetched successfully''), (''task'', VTask example_task)]\<rparr>"
  have p: "params ?a = params ?b" by (simp add: example_request_def)
  have first: "fst (getTaskByIdController example_env ?a example_world) = Inr ?r"
    by (simp add: getTaskByIdController_def roleGuard_def run_defs Let_def HTTPSTATUS_OK_def example_defs)
  have second: "fst (getTaskByIdController example_env ?b ?w) = Inr (projr (fst (getTaskByIdController example_env ?b ?w)))"
    by (simp add: getTaskByIdController_def roleGuard_def run_defs Let_def HTTPSTATUS_OK_def example_defs)
  from getTaskById_idempotent [of ?a ?a example_world ?w example_env]
  have d: "db example_world = db ?w" and again: "fst (getTaskByIdController example_env ?a ?w) = Inr ?r"
    using first by simp_all
  from getTaskById_idempotent [of ?a ?b example_world ?w example_env] p d first second
  have other: "fst (getTaskByIdController example_env ?b ?w) = Inr ?r"
    by metis
  from p d first again other show ?thesis by blast
qed

subsection \<open>Listing tasks\<close>





















end
